theory Spec2Isabelle
  imports Complex_Main
begin

text \<open>
  A model of the analysis core of the financial SMS parser: the numeric and the date
  normalizer, the classifier, the field extractor, the sanitizer and the adapter of the
  language model with its orchestration, as \<open>Backend/main_with_api.py\<close> has them, and
  the earlier handler of \<open>Backend/routes.py\<close>.  Functions keep the names of the source.
  The language model, \<open>json.loads\<close> and the database are outside the program and are
  parameters of the functions that call them.
\<close>

section \<open>Strings and characters\<close>

text \<open>
  Python strings are modelled as \<open>string\<close>.  A character is an ASCII code; a code point
  beyond ASCII (the rupee sign of the currency patterns) is its UTF-8 byte sequence.  The
  character tests below are those of Python restricted to ASCII: \<open>\d\<close> and
  \<open>str.isdigit\<close> are \<open>0-9\<close>, \<open>\s\<close> and \<open>str.strip\<close> use the ASCII white space of
  \<open>str.isspace\<close>, \<open>\w\<close> is \<open>[A-Za-z0-9_]\<close>, and \<open>str.lower\<close>, \<open>str.upper\<close> map
  \<open>A-Z\<close> and \<open>a-z\<close> onto each other.  On ASCII text, \<open>ascii_text\<close> below, these are
  Python's own tests.  On other text Python also knows digits, white space and letters
  beyond ASCII, which the model does not: a statement that depends on what the tests
  say about such characters is made for ASCII text.
\<close>

definition ord :: "char \<Rightarrow> int" where
  "ord c = of_char c"

definition ascii_text :: "string \<Rightarrow> bool" where
  "ascii_text s = list_all (\<lambda>c. ord c < 128) s"

definition is_digit :: "char \<Rightarrow> bool" where
  "is_digit c = (48 \<le> ord c \<and> ord c \<le> 57)"

definition is_upper :: "char \<Rightarrow> bool" where
  "is_upper c = (65 \<le> ord c \<and> ord c \<le> 90)"

definition is_lower :: "char \<Rightarrow> bool" where
  "is_lower c = (97 \<le> ord c \<and> ord c \<le> 122)"

definition is_space :: "char \<Rightarrow> bool" where
  "is_space c = ((9 \<le> ord c \<and> ord c \<le> 13) \<or> (28 \<le> ord c \<and> ord c \<le> 32))"

definition is_word :: "char \<Rightarrow> bool" where
  "is_word c = (is_digit c \<or> is_upper c \<or> is_lower c \<or> c = CHR ''_'')"

definition to_lower :: "char \<Rightarrow> char" where
  "to_lower c = (if is_upper c then char_of (ord c + 32) else c)"

definition to_upper :: "char \<Rightarrow> char" where
  "to_upper c = (if is_lower c then char_of (ord c - 32) else c)"

text \<open>\<open>s.lower()\<close>, \<open>s.upper()\<close>, \<open>s.strip()\<close>.\<close>

definition lower :: "string \<Rightarrow> string" where
  "lower s = map to_lower s"

definition upper :: "string \<Rightarrow> string" where
  "upper s = map to_upper s"

definition strip :: "string \<Rightarrow> string" where
  "strip s = rev (dropWhile is_space (rev (dropWhile is_space s)))"

text \<open>\<open>s.startswith(p)\<close> and the substring test \<open>sub in s\<close>.\<close>

fun startswith :: "string \<Rightarrow> string \<Rightarrow> bool" where
  "startswith s [] = True"
| "startswith [] (p # ps) = False"
| "startswith (c # cs) (p # ps) = (c = p \<and> startswith cs ps)"

fun contains :: "string \<Rightarrow> string \<Rightarrow> bool" where
  "contains sub [] = (sub = [])"
| "contains sub (c # cs) = (startswith (c # cs) sub \<or> contains sub cs)"

text \<open>\<open>s.zfill(n)\<close> on a string without sign.\<close>

definition zfill :: "nat \<Rightarrow> string \<Rightarrow> string" where
  "zfill n s = replicate (n - length s) (CHR ''0'') @ s"

section \<open>Regular expressions\<close>

text \<open>
  The patterns of the program are written in the following abstract syntax and run by a
  backtracking matcher with the priorities of Python's \<open>re\<close>: in an alternation the left
  branch is tried first, a greedy repetition tries the longest run first and a lazy one
  the shortest, and \<open>re.search\<close> returns the first match at the leftmost position that
  has one.  Every repetition in the program's patterns ranges over a single character
  class, so \<open>Rep\<close> repeats a class; an optional group \<open>(?:r)?\<close> is \<open>Alt r Eps\<close>.
  A class is a negation flag and a list of items.  With \<open>re.IGNORECASE\<close> a character
  belongs to a class when its lower-case or upper-case form does.
\<close>

datatype citem = CChar char | CRange char char | CDigit | CSpace | CWord

type_synonym cset = "bool \<times> citem list"

datatype regex =
    Eps
  | Ch cset
  | Seq regex regex
  | Alt regex regex
  | Rep bool nat "nat option" cset
  | Grp nat regex

fun citem_has :: "citem \<Rightarrow> char \<Rightarrow> bool" where
  "citem_has (CChar a) c = (c = a)"
| "citem_has (CRange a b) c = (ord a \<le> ord c \<and> ord c \<le> ord b)"
| "citem_has CDigit c = is_digit c"
| "citem_has CSpace c = is_space c"
| "citem_has CWord c = is_word c"

definition items_have :: "citem list \<Rightarrow> char \<Rightarrow> bool" where
  "items_have its c = list_ex (\<lambda>i. citem_has i c) its"

definition cset_has :: "bool \<Rightarrow> cset \<Rightarrow> char \<Rightarrow> bool" where
  "cset_has ic cs c =
     (let hit = (if ic then items_have (snd cs) c \<or> items_have (snd cs) (to_lower c)
                            \<or> items_have (snd cs) (to_upper c)
                 else items_have (snd cs) c)
      in if fst cs then \<not> hit else hit)"

type_synonym caps = "(nat \<times> string) list"

text \<open>
  \<open>rmatch ic r s c\<close> lists, in the order a backtracking matcher tries them, the ways \<open>r\<close>
  matches a prefix of \<open>s\<close>: each is the unread rest of \<open>s\<close> with the groups captured so
  far (\<open>c\<close> extended).
\<close>

fun rmatch :: "bool \<Rightarrow> regex \<Rightarrow> string \<Rightarrow> caps \<Rightarrow> (string \<times> caps) list" where
  "rmatch ic Eps s c = [(s, c)]"
| "rmatch ic (Ch cs) s c =
     (case s of [] \<Rightarrow> [] | x # xs \<Rightarrow> if cset_has ic cs x then [(xs, c)] else [])"
| "rmatch ic (Seq a b) s c =
     concat (map (\<lambda>m. rmatch ic b (fst m) (snd m)) (rmatch ic a s c))"
| "rmatch ic (Alt a b) s c = rmatch ic a s c @ rmatch ic b s c"
| "rmatch ic (Rep greedy lo hi cs) s c =
     (let avail = length (takeWhile (cset_has ic cs) s);
          top = (case hi of None \<Rightarrow> avail | Some h \<Rightarrow> min h avail);
          ns = [lo ..< Suc top]
      in map (\<lambda>n. (drop n s, c)) (if greedy then rev ns else ns))"
| "rmatch ic (Grp g r) s c =
     map (\<lambda>m. (fst m, (g, take (length s - length (fst m)) s) # snd m)) (rmatch ic r s c)"

text \<open>\<open>re.match\<close>: the first match at the start of the string; \<open>re.search\<close>: at the
  leftmost position that has one (the empty suffix included).\<close>

definition re_match :: "bool \<Rightarrow> regex \<Rightarrow> string \<Rightarrow> (string \<times> caps) option" where
  "re_match ic r s = (case rmatch ic r s [] of [] \<Rightarrow> None | m # _ \<Rightarrow> Some m)"

fun re_search :: "bool \<Rightarrow> regex \<Rightarrow> string \<Rightarrow> caps option" where
  "re_search ic r [] = map_option snd (re_match ic r [])"
| "re_search ic r (x # xs) =
     (case re_match ic r (x # xs) of None \<Rightarrow> re_search ic r xs | Some m \<Rightarrow> Some (snd m))"

text \<open>\<open>m.group(n)\<close>.  Every group of every pattern below takes part in every match of
  its pattern, so the group is always set.\<close>

definition group :: "caps \<Rightarrow> nat \<Rightarrow> string" where
  "group c n = (case map_of c n of None \<Rightarrow> [] | Some t \<Rightarrow> t)"

text \<open>Shorthands for writing patterns.\<close>

definition chr :: "char \<Rightarrow> regex" where
  "chr a = Ch (False, [CChar a])"

definition lit :: "string \<Rightarrow> regex" where
  "lit s = foldr (\<lambda>a r. Seq (chr a) r) s Eps"

definition seqs :: "regex list \<Rightarrow> regex" where
  "seqs rs = foldr Seq rs Eps"

definition opt :: "regex \<Rightarrow> regex" where
  "opt r = Alt r Eps"

definition cls :: "citem list \<Rightarrow> regex" where
  "cls its = Ch (False, its)"

definition many :: "citem list \<Rightarrow> regex" where
  "many its = Rep True 0 None (False, its)"

definition many1 :: "citem list \<Rightarrow> regex" where
  "many1 its = Rep True 1 None (False, its)"

definition optc :: "citem list \<Rightarrow> regex" where
  "optc its = Rep True 0 (Some 1) (False, its)"

definition rep :: "nat \<Rightarrow> nat \<Rightarrow> citem list \<Rightarrow> regex" where
  "rep lo hi its = Rep True lo (Some hi) (False, its)"

abbreviation letters :: "citem list" where
  "letters \<equiv> [CRange (CHR ''A'') (CHR ''Z''), CRange (CHR ''a'') (CHR ''z'')]"

abbreviation upper_digits :: "citem list" where
  "upper_digits \<equiv> [CRange (CHR ''A'') (CHR ''Z''), CRange (CHR ''0'') (CHR ''9'')]"

section \<open>Numeric normalizer\<close>

text \<open>
  \<open>clean_numeric_string\<close> (the same function in \<open>main_with_api.py\<close> and \<open>routes.py\<close>) on
  a string argument.  \<open>None\<close> is Python's \<open>None\<close>.
\<close>

definition clean_numeric_string :: "string \<Rightarrow> string option" where
  "clean_numeric_string value_str =
     (if value_str = [] then None
      else
        let cleaned = filter (\<lambda>c. c \<noteq> CHR '','') value_str;
            cleaned = (if cleaned \<noteq> [] \<and> last cleaned = CHR ''.'' then butlast cleaned
                       else cleaned);
            cleaned = (if count_list cleaned (CHR ''.'') > 1
                       then let first_dot = length (takeWhile (\<lambda>c. c \<noteq> CHR ''.'') cleaned)
                            in take (first_dot + 1) cleaned
                               @ filter (\<lambda>c. c \<noteq> CHR ''.'') (drop (first_dot + 1) cleaned)
                       else cleaned)
        in Some cleaned)"

section \<open>Classifier\<close>

text \<open>\<open>classify_message_type\<close> of \<open>main_with_api.py\<close>; categories are strings, as in
  the source.\<close>

definition classify_message_type :: "string \<Rightarrow> string" where
  "classify_message_type message =
     (let message_lower = lower message in
      if contains ''salary'' message_lower \<or> contains ''credited'' message_lower
         \<or> contains ''deposited'' message_lower
      then ''SALARY_CREDIT''
      else if (contains ''loan'' message_lower \<or> contains ''emi'' message_lower)
            \<and> (contains ''debited'' message_lower \<or> contains ''deducted'' message_lower
               \<or> contains ''due on'' message_lower)
      then ''EMI_PAYMENT''
      else if contains ''credit card'' message_lower \<or> contains ''creditcard'' message_lower
            \<or> contains ''card member'' message_lower
      then ''CREDIT_CARD_TRANSACTION''
      else if contains ''sip'' message_lower
            \<and> list_ex (\<lambda>keyword. contains keyword message_lower)
                 [''processed'', ''deducted'', ''under folio'', ''has been processed'']
      then ''SIP_INVESTMENT''
      else if contains ''insurance'' message_lower \<or> contains ''premium'' message_lower
            \<or> contains ''policy'' message_lower
      then ''INSURANCE_PAYMENT''
      else if contains ''credited'' message_lower \<or> contains ''deposited'' message_lower
      then ''CREDIT_TRANSACTION''
      else if contains ''debited'' message_lower \<or> contains ''deducted'' message_lower
      then ''DEBIT_TRANSACTION''
      else ''OTHER_FINANCIAL'')"

section \<open>Values and dictionaries\<close>

text \<open>
  A Python value as the program meets it: what \<open>json.loads\<close> produces, and the number
  and the string fields of a field map.  A float is modelled by the decimal number its
  literal denotes; Python stores the binary double nearest to it, which is a function of
  that number, so that equal models are equal floats.  A dictionary is the list of its
  items in insertion order.
\<close>

datatype pyval =
    PNone
  | PBool bool
  | PInt int
  | PFloat rat
  | PStr string
  | PList "pyval list"
  | PDict "(string \<times> pyval) list"

type_synonym pydict = "(string \<times> pyval) list"

text \<open>\<open>d[k] = v\<close>, \<open>k in d\<close> and \<open>d.update(e)\<close>; \<open>d.get(k)\<close> is \<open>map_of d k\<close>.\<close>

fun dict_set :: "string \<Rightarrow> pyval \<Rightarrow> pydict \<Rightarrow> pydict" where
  "dict_set k v [] = [(k, v)]"
| "dict_set k v (p # ps) = (if fst p = k then (k, v) # ps else p # dict_set k v ps)"

definition has_key :: "string \<Rightarrow> pydict \<Rightarrow> bool" where
  "has_key k d = (map_of d k \<noteq> None)"

definition dict_update :: "pydict \<Rightarrow> pydict \<Rightarrow> pydict" where
  "dict_update d e = foldl (\<lambda>acc p. dict_set (fst p) (snd p) acc) d e"


section \<open>Numbers and their text\<close>

definition digit_val :: "char \<Rightarrow> int" where
  "digit_val c = ord c - 48"

definition int_of_digits :: "string \<Rightarrow> int" where
  "int_of_digits s = foldl (\<lambda>n c. 10 * n + digit_val c) 0 s"

text \<open>\<open>s.isdigit()\<close>.\<close>

definition isdigit :: "string \<Rightarrow> bool" where
  "isdigit s = (s \<noteq> [] \<and> list_all is_digit s)"

text \<open>
  \<open>float(s)\<close> and \<open>int(s)\<close> on a string of digits and dots, which is all the program
  passes to them: the extractors pass captures of \<open>[\d,]+\.?\d*\<close> and \<open>[\d\.]+\<close> with the
  commas removed, the sanitizer a string that \<open>isdigit\<close> accepts once its first dot is
  removed.  \<open>None\<close> is the \<open>ValueError\<close> of a string that is no numeral.  The number
  is the exact decimal value: the rounding of \<open>float\<close> to the nearest double, its \<open>inf\<close>
  for a numeral of more than some three hundred digits, and the refusal of \<open>int\<close> to read
  more than 4300 digits are not modelled.
\<close>

definition py_float :: "string \<Rightarrow> rat option" where
  "py_float s =
     (let ip = takeWhile is_digit s; rest = dropWhile is_digit s in
      if rest = [] then (if ip = [] then None else Some (of_int (int_of_digits ip)))
      else if hd rest = CHR ''.'' \<and> list_all is_digit (tl rest) \<and> (ip \<noteq> [] \<or> tl rest \<noteq> [])
      then Some (of_int (int_of_digits (ip @ tl rest)) / 10 ^ length (tl rest))
      else None)"

definition py_int :: "string \<Rightarrow> int option" where
  "py_int s = (if isdigit s then Some (int_of_digits s) else None)"

text \<open>Decimal text of a number, as \<open>str\<close> and the \<open>%Y\<close>, \<open>%m\<close>, \<open>%d\<close> of \<open>strftime\<close>
  print it.\<close>

definition digit_char :: "nat \<Rightarrow> char" where
  "digit_char d = ''0123456789'' ! d"

fun show_nat :: "nat \<Rightarrow> string" where
  "show_nat n =
     (if n < 10 then [digit_char n] else show_nat (n div 10) @ [digit_char (n mod 10)])"

definition show_int :: "int \<Rightarrow> string" where
  "show_int i = (if i < 0 then CHR ''-'' # show_nat (nat (- i)) else show_nat (nat i))"

text \<open>
  \<open>str(v)\<close>.  The text Python prints for a float, a list or a dictionary is left open:
  it is the parameter \<open>repr\<close>.
\<close>

definition py_str :: "(pyval \<Rightarrow> string) \<Rightarrow> pyval \<Rightarrow> string" where
  "py_str repr v =
     (case v of
        PStr s \<Rightarrow> s
      | PNone \<Rightarrow> ''None''
      | PBool b \<Rightarrow> (if b then ''True'' else ''False'')
      | PInt i \<Rightarrow> show_int i
      | _ \<Rightarrow> repr v)"

section \<open>Date normalizer\<close>

text \<open>The four patterns of \<open>parse_date\<close>, in the order it tries them.\<close>

definition date_sep3 :: "citem list" where
  "date_sep3 = [CChar (CHR ''-''), CSpace, CChar (CHR ''/'')]"

definition date_sep2 :: "citem list" where
  "date_sep2 = [CChar (CHR ''-''), CChar (CHR ''/'')]"

definition pattern1 :: regex where
  "pattern1 = seqs [Grp 1 (rep 1 2 [CDigit]), cls date_sep3, Grp 2 (rep 3 3 letters),
                    cls date_sep3, Grp 3 (rep 2 4 [CDigit])]"

definition pattern2 :: regex where
  "pattern2 = seqs [Grp 1 (rep 1 2 [CDigit]), cls date_sep2, Grp 2 (rep 1 2 [CDigit]),
                    cls date_sep2, Grp 3 (rep 4 4 [CDigit])]"

definition pattern3 :: regex where
  "pattern3 = seqs [Grp 1 (rep 4 4 [CDigit]), cls date_sep2, Grp 2 (rep 1 2 [CDigit]),
                    cls date_sep2, Grp 3 (rep 1 2 [CDigit])]"

definition pattern4 :: regex where
  "pattern4 = seqs [Grp 1 (rep 2 2 [CDigit]), cls date_sep2, Grp 2 (rep 1 2 [CDigit]),
                    cls date_sep2, Grp 3 (rep 1 2 [CDigit])]"

definition month_map :: "(string \<times> string) list" where
  "month_map =
     [(''JAN'', ''01''), (''FEB'', ''02''), (''MAR'', ''03''), (''APR'', ''04''),
      (''MAY'', ''05''), (''JUN'', ''06''), (''JUL'', ''07''), (''AUG'', ''08''),
      (''SEP'', ''09''), (''OCT'', ''10''), (''NOV'', ''11''), (''DEC'', ''12'')]"

text \<open>
  \<open>datetime.strptime\<close> for the five formats of the fallback loop.  The library turns a
  format into a pattern (one named group for each directive, matched ignoring case),
  matches it at the start of the text, and raises \<open>ValueError\<close> when the pattern does
  not match, when text remains after the match, or when the numbers are no calendar
  date.  Groups: 1 is \<open>%d\<close>, 2 is \<open>%m\<close>, 3 is \<open>%b\<close>, 4 is \<open>%y\<close>, 5 is \<open>%Y\<close>.
\<close>

definition dir_d :: regex where
  "dir_d = Grp 1 (Alt (Seq (chr (CHR ''3'')) (cls [CRange (CHR ''0'') (CHR ''1'')]))
             (Alt (Seq (cls [CRange (CHR ''1'') (CHR ''2'')]) (cls [CDigit]))
             (Alt (Seq (chr (CHR ''0'')) (cls [CRange (CHR ''1'') (CHR ''9'')]))
             (Alt (cls [CRange (CHR ''1'') (CHR ''9'')])
                  (Seq (chr (CHR '' '')) (cls [CRange (CHR ''1'') (CHR ''9'')]))))))"

definition dir_m :: regex where
  "dir_m = Grp 2 (Alt (Seq (chr (CHR ''1'')) (cls [CRange (CHR ''0'') (CHR ''2'')]))
             (Alt (Seq (chr (CHR ''0'')) (cls [CRange (CHR ''1'') (CHR ''9'')]))
                  (cls [CRange (CHR ''1'') (CHR ''9'')])))"

definition month_abbr :: "string list" where
  "month_abbr = [''jan'', ''feb'', ''mar'', ''apr'', ''may'', ''jun'',
                 ''jul'', ''aug'', ''sep'', ''oct'', ''nov'', ''dec'']"

definition dir_b :: regex where
  "dir_b = Grp 3 (foldr (\<lambda>a r. Alt (lit a) r) (butlast month_abbr) (lit (last month_abbr)))"

definition dir_y :: regex where
  "dir_y = Grp 4 (Seq (cls [CDigit]) (cls [CDigit]))"

definition dir_Y :: regex where
  "dir_Y = Grp 5 (seqs [cls [CDigit], cls [CDigit], cls [CDigit], cls [CDigit]])"

text \<open>\<open>"%d-%b-%y", "%d/%m/%Y", "%d-%m-%Y", "%Y-%m-%d", "%y-%m-%d"\<close>.\<close>

definition strptime_formats :: "regex list" where
  "strptime_formats =
     [seqs [dir_d, chr (CHR ''-''), dir_b, chr (CHR ''-''), dir_y],
      seqs [dir_d, chr (CHR ''/''), dir_m, chr (CHR ''/''), dir_Y],
      seqs [dir_d, chr (CHR ''-''), dir_m, chr (CHR ''-''), dir_Y],
      seqs [dir_Y, chr (CHR ''-''), dir_m, chr (CHR ''-''), dir_d],
      seqs [dir_y, chr (CHR ''-''), dir_m, chr (CHR ''-''), dir_d]]"

definition is_leap :: "int \<Rightarrow> bool" where
  "is_leap y = (y mod 4 = 0 \<and> (y mod 100 \<noteq> 0 \<or> y mod 400 = 0))"

definition days_in_month :: "int \<Rightarrow> int \<Rightarrow> int" where
  "days_in_month y m =
     (if m = 2 then (if is_leap y then 29 else 28)
      else if m \<in> {4, 6, 9, 11} then 30 else 31)"

fun index_of :: "string \<Rightarrow> string list \<Rightarrow> int" where
  "index_of x [] = 0"
| "index_of x (y # ys) = (if x = y then 0 else 1 + index_of x ys)"

text \<open>\<open>strptime\<close> gives the year, the month and the day, or \<open>None\<close> for its
  \<open>ValueError\<close>.\<close>

definition strptime :: "string \<Rightarrow> regex \<Rightarrow> (int \<times> int \<times> int) option" where
  "strptime data_string fmt =
     (case re_match True fmt data_string of
        None \<Rightarrow> None
      | Some found \<Rightarrow>
          if fst found \<noteq> [] then None
          else
            let g = snd found;
                year = (case map_of g 5 of
                          Some t \<Rightarrow> int_of_digits t
                        | None \<Rightarrow> let y = int_of_digits (group g 4)
                                  in if y \<le> 68 then y + 2000 else y + 1900);
                month = (case map_of g 3 of
                           Some t \<Rightarrow> 1 + index_of (lower t) month_abbr
                         | None \<Rightarrow> int_of_digits (group g 2));
                day = int_of_digits (strip (group g 1))
            in if 1 \<le> year \<and> 1 \<le> day \<and> day \<le> days_in_month year month
               then Some (year, month, day) else None)"

text \<open>\<open>dt.strftime("%Y-%m-%d")\<close>.\<close>

definition strftime_iso :: "int \<times> int \<times> int \<Rightarrow> string" where
  "strftime_iso dt =
     (case dt of (y, m, d) \<Rightarrow>
        zfill 4 (show_int y) @ ''-'' @ zfill 2 (show_int m) @ ''-'' @ zfill 2 (show_int d))"

fun strptime_loop :: "string \<Rightarrow> regex list \<Rightarrow> string option" where
  "strptime_loop date_str [] = None"
| "strptime_loop date_str (fmt # fmts) =
     (case strptime date_str fmt of
        Some dt \<Rightarrow> Some (strftime_iso dt)
      | None \<Rightarrow> strptime_loop date_str fmts)"

text \<open>
  \<open>parse_date\<close>.  \<open>None\<close> is Python's \<open>None\<close>.  On a string no statement of the body
  raises, apart from \<open>strptime\<close>, whose \<open>ValueError\<close> the loop catches; the enclosing
  \<open>except Exception\<close>, which returns \<open>None\<close>, is therefore never entered.
\<close>

definition parse_date :: "string \<Rightarrow> string option" where
  "parse_date date_str =
     (case re_search False pattern1 date_str of
        Some match1 \<Rightarrow>
          let day = group match1 1; month_str = group match1 2; year = group match1 3;
              month = (case map_of month_map (upper month_str) of
                         None \<Rightarrow> ''01'' | Some mm \<Rightarrow> mm);
              year = (if length year = 2 then ''20'' @ year else year);
              day = zfill 2 day
          in Some (year @ ''-'' @ month @ ''-'' @ day)
      | None \<Rightarrow>
     (case re_search False pattern2 date_str of
        Some match2 \<Rightarrow>
          let day = group match2 1; month = group match2 2; year = group match2 3;
              day = zfill 2 day; month = zfill 2 month
          in Some (year @ ''-'' @ month @ ''-'' @ day)
      | None \<Rightarrow>
     (case re_search False pattern3 date_str of
        Some match3 \<Rightarrow>
          let year = group match3 1; month = group match3 2; day = group match3 3;
              day = zfill 2 day; month = zfill 2 month
          in Some (year @ ''-'' @ month @ ''-'' @ day)
      | None \<Rightarrow>
     (case re_search False pattern4 date_str of
        Some match4 \<Rightarrow>
          let year = group match4 1; month = group match4 2; day = group match4 3;
              year = ''20'' @ year;
              day = zfill 2 day; month = zfill 2 month
          in Some (year @ ''-'' @ month @ ''-'' @ day)
      | None \<Rightarrow> strptime_loop date_str strptime_formats))))"

section \<open>Field extractor\<close>

text \<open>The patterns of \<open>extract_financial_data\<close> and \<open>extract_sip_data\<close> in
  \<open>main_with_api.py\<close>.  \<open>number\<close> is the capture \<open>[\d,]+\.?\d*\<close>.\<close>

definition rupee :: string where
  "rupee = [CHR 0xE2, CHR 0x82, CHR 0xB9]"

definition dot :: "citem list" where
  "dot = [CChar (CHR ''.'')]"

definition number :: regex where
  "number = seqs [many1 [CDigit, CChar (CHR '','')], optc dot, many [CDigit]]"

text \<open>\<open>(?:INR|Rs\.?|<rupee>)\s*([\d,]+\.?\d*)\<close>, the rupee sign written as its bytes.\<close>

definition amount_pattern :: regex where
  "amount_pattern =
     seqs [Alt (lit ''INR'') (Alt (Seq (lit ''Rs'') (optc dot)) (lit rupee)),
           many [CSpace], Grp 1 number]"

text \<open>\<open>(?:A/c(?:\s+no)?\.?|Ac(?:\s+no)?\.?|card ending|account)\s*[:\-]?\s*([A-Z0-9]+\d{4})\<close>\<close>

definition account_pattern :: regex where
  "account_pattern =
     seqs [Alt (seqs [lit ''A/c'', opt (Seq (many1 [CSpace]) (lit ''no'')), optc dot])
          (Alt (seqs [lit ''Ac'', opt (Seq (many1 [CSpace]) (lit ''no'')), optc dot])
          (Alt (lit ''card ending'') (lit ''account''))),
           many [CSpace], optc [CChar (CHR '':''), CChar (CHR ''-'')], many [CSpace],
           Grp 1 (Seq (many1 upper_digits) (rep 4 4 [CDigit]))]"

text \<open>\<open>(\d{2}[-/]\d{2}[-/]\d{2,4}|\d{2}[-\s][A-Za-z]{3}[-\s]\d{2,4})\<close>\<close>

definition date_pattern :: regex where
  "date_pattern =
     Grp 1 (Alt (seqs [rep 2 2 [CDigit], cls date_sep2, rep 2 2 [CDigit], cls date_sep2,
                       rep 2 4 [CDigit]])
                (seqs [rep 2 2 [CDigit], cls [CChar (CHR ''-''), CSpace], rep 3 3 letters,
                       cls [CChar (CHR ''-''), CSpace], rep 2 4 [CDigit]]))"

text \<open>\<open>(?:Avl bal|available balance|net available balance)[^0-9]*(?:INR|Rs\.?|<rupee>)\s*([\d,]+\.?\d*)\<close>\<close>

definition balance_pattern :: regex where
  "balance_pattern =
     seqs [Alt (lit ''Avl bal'') (Alt (lit ''available balance'') (lit ''net available balance'')),
           Rep True 0 None (True, [CRange (CHR ''0'') (CHR ''9'')]),
           Alt (lit ''INR'') (Alt (Seq (lit ''Rs'') (optc dot)) (lit rupee)),
           many [CSpace], Grp 1 number]"

text \<open>\<open>(?:from|to|by)?\s*([A-Z][A-Za-z\s]+)\s+(?:Bank|BANK|bank)\<close>\<close>

definition bank_pattern :: regex where
  "bank_pattern =
     seqs [opt (Alt (lit ''from'') (Alt (lit ''to'') (lit ''by''))), many [CSpace],
           Grp 1 (Seq (cls [CRange (CHR ''A'') (CHR ''Z'')]) (many1 (letters @ [CSpace]))),
           many1 [CSpace], Alt (lit ''Bank'') (Alt (lit ''BANK'') (lit ''bank''))]"

text \<open>\<open>- ([A-Za-z\s]+) -\<close>\<close>

definition employer_pattern :: regex where
  "employer_pattern = seqs [lit ''- '', Grp 1 (many1 (letters @ [CSpace])), lit '' -'']"

text \<open>\<open>([A-Z0-9]+\d{6,})\<close> and \<open>Loan\s+([A-Za-z]+)\<close>\<close>

definition loan_ref_pattern :: regex where
  "loan_ref_pattern = Grp 1 (Seq (many1 upper_digits) (Rep True 6 None (False, [CDigit])))"

definition loan_type_pattern :: regex where
  "loan_type_pattern = seqs [lit ''Loan'', many1 [CSpace], Grp 1 (many1 letters)]"

text \<open>\<open>at\s+([A-Za-z\s]+)\s+on\<close>, \<open>Authorization code[-:]?\s*(\w+)\<close> and
  \<open>total outstanding is\s+(?:Rs\.?|INR|<rupee>)\s*([\d,]+\.?\d*)\<close>\<close>

definition merchant_pattern :: regex where
  "merchant_pattern =
     seqs [lit ''at'', many1 [CSpace], Grp 1 (many1 (letters @ [CSpace])), many1 [CSpace],
           lit ''on'']"

definition auth_code_pattern :: regex where
  "auth_code_pattern =
     seqs [lit ''Authorization code'', optc [CChar (CHR ''-''), CChar (CHR '':'')],
           many [CSpace], Grp 1 (many1 [CWord])]"

definition outstanding_pattern :: regex where
  "outstanding_pattern =
     seqs [lit ''total outstanding is'', many1 [CSpace],
           Alt (Seq (lit ''Rs'') (optc dot)) (Alt (lit ''INR'') (lit rupee)),
           many [CSpace], Grp 1 number]"

text \<open>\<open>policy(?:\s+no\.?| number)?[:\-]?\s*([A-Z0-9]+)\<close>\<close>

definition policy_pattern :: regex where
  "policy_pattern =
     seqs [lit ''policy'',
           opt (Alt (seqs [many1 [CSpace], lit ''no'', optc dot]) (lit '' number'')),
           optc [CChar (CHR '':''), CChar (CHR ''-'')], many [CSpace],
           Grp 1 (many1 upper_digits)]"

definition insurance_companies :: "string list" where
  "insurance_companies = [''LIC'', ''HDFC Life'', ''ICICI Prudential'', ''SBI Life'', ''Tata AIA'']"

text \<open>The patterns of \<open>extract_sip_data\<close>: \<open>(?:Rs\.?|INR)\s*([\d,]+\.?\d*)\<close>, the three
  \<open>SIP of\<close> dates, the general date, \<open>[Ff]olio\s+([A-Z0-9]+)\<close>,
  \<open>in\s+([A-Za-z\s\-]+?)(?:Regular|has been)\<close> and \<open>NAV of\s+([\d\.]+)\<close>.\<close>

definition sip_amount_pattern :: regex where
  "sip_amount_pattern =
     seqs [Alt (Seq (lit ''Rs'') (optc dot)) (lit ''INR''), many [CSpace], Grp 1 number]"

definition sip_date_patterns :: "regex list" where
  "sip_date_patterns =
     [seqs [lit ''SIP of '',
            Grp 1 (seqs [rep 2 2 [CDigit], chr (CHR ''/''), rep 2 2 [CDigit], chr (CHR ''/''),
                         rep 4 4 [CDigit]])],
      seqs [lit ''SIP of '',
            Grp 1 (seqs [rep 2 2 [CDigit], chr (CHR ''-''), rep 2 2 [CDigit], chr (CHR ''-''),
                         rep 4 4 [CDigit]])],
      seqs [lit ''SIP of '',
            Grp 1 (seqs [rep 2 2 [CDigit], chr (CHR ''-''), rep 3 3 letters, chr (CHR ''-''),
                         rep 2 4 [CDigit]])]]"

definition general_date_pattern :: regex where
  "general_date_pattern =
     Grp 1 (Alt (seqs [rep 2 2 [CDigit], cls date_sep2, rep 2 2 [CDigit], cls date_sep2,
                       rep 4 4 [CDigit]])
                (seqs [rep 2 2 [CDigit], cls [CChar (CHR ''-''), CSpace], rep 3 3 letters,
                       cls [CChar (CHR ''-''), CSpace], rep 2 4 [CDigit]]))"

definition folio_pattern :: regex where
  "folio_pattern =
     seqs [cls [CChar (CHR ''F''), CChar (CHR ''f'')], lit ''olio'', many1 [CSpace],
           Grp 1 (many1 upper_digits)]"

definition fund_pattern :: regex where
  "fund_pattern =
     seqs [lit ''in'', many1 [CSpace],
           Grp 1 (Rep False 1 None (False, letters @ [CSpace, CChar (CHR ''-'')])),
           Alt (lit ''Regular'') (lit ''has been'')]"

definition nav_pattern :: regex where
  "nav_pattern =
     seqs [lit ''NAV of'', many1 [CSpace], Grp 1 (many1 [CDigit, CChar (CHR ''.'')])]"

text \<open>
  The step the extractors repeat for every numeric field:
  \<^verbatim>\<open>x_str = clean_numeric_string(m.group(1))\<close>, then, when \<open>x_str\<close> is not empty,
  \<^verbatim>\<open>data[key] = float(x_str)\<close>, the \<open>ValueError\<close> of \<open>float\<close> being logged and dropped.
\<close>

definition store_number :: "string \<Rightarrow> string \<Rightarrow> pydict \<Rightarrow> pydict" where
  "store_number key captured data =
     (case clean_numeric_string captured of
        None \<Rightarrow> data
      | Some x_str \<Rightarrow>
          if x_str = [] then data
          else (case py_float x_str of None \<Rightarrow> data | Some f \<Rightarrow> dict_set key (PFloat f) data))"

text \<open>The step for a date: the capture goes through \<open>parse_date\<close> and is stored when
  that gives a date.\<close>

definition store_date :: "string \<Rightarrow> pydict \<Rightarrow> pydict" where
  "store_date date_str data =
     (case parse_date date_str of
        None \<Rightarrow> data
      | Some parsed_date \<Rightarrow>
          if parsed_date = [] then data
          else dict_set ''transaction_date'' (PStr parsed_date) data)"

text \<open>The loop of \<open>extract_sip_data\<close> over its date patterns: it stops at the first
  pattern whose capture \<open>parse_date\<close> accepts.\<close>

fun sip_date_loop :: "regex list \<Rightarrow> string \<Rightarrow> pydict \<Rightarrow> pydict" where
  "sip_date_loop [] message data = data"
| "sip_date_loop (pattern # patterns) message data =
     (case re_search False pattern message of
        None \<Rightarrow> sip_date_loop patterns message data
      | Some date_match \<Rightarrow>
          (case parse_date (group date_match 1) of
             None \<Rightarrow> sip_date_loop patterns message data
           | Some parsed_date \<Rightarrow>
               if parsed_date = [] then sip_date_loop patterns message data
               else dict_set ''transaction_date'' (PStr parsed_date) data))"

definition extract_sip_data :: "string \<Rightarrow> pydict" where
  "extract_sip_data message =
     (let data = [];
          data = (case re_search False sip_amount_pattern message of
                    None \<Rightarrow> data
                  | Some amount_match \<Rightarrow> store_number ''amount'' (group amount_match 1) data);
          data = sip_date_loop sip_date_patterns message data;
          data = (if has_key ''transaction_date'' data then data
                  else (case re_search False general_date_pattern message of
                          None \<Rightarrow> data
                        | Some date_match \<Rightarrow> store_date (group date_match 1) data));
          data = (case re_search False folio_pattern message of
                    None \<Rightarrow> data
                  | Some folio_match \<Rightarrow>
                      dict_set ''folio_number'' (PStr (group folio_match 1)) data);
          data = (case re_search False fund_pattern message of
                    None \<Rightarrow> data
                  | Some fund_match \<Rightarrow>
                      dict_set ''fund_name'' (PStr (strip (group fund_match 1))) data);
          data = (case re_search False nav_pattern message of
                    None \<Rightarrow> data
                  | Some nav_match \<Rightarrow> store_number ''nav_value'' (group nav_match 1) data)
      in data)"

text \<open>The loop over the known insurance companies.\<close>

fun company_loop :: "string list \<Rightarrow> string \<Rightarrow> pydict \<Rightarrow> pydict" where
  "company_loop [] message data = data"
| "company_loop (company # companies) message data =
     (if contains (lower company) (lower message)
      then dict_set ''insurance_company'' (PStr company) data
      else company_loop companies message data)"

definition extract_financial_data :: "string \<Rightarrow> string \<Rightarrow> pydict" where
  "extract_financial_data message_type message =
     (let data = [];
          data = (case re_search False amount_pattern message of
                    None \<Rightarrow> data
                  | Some amount_match \<Rightarrow> store_number ''amount'' (group amount_match 1) data);
          data = (case re_search True account_pattern message of
                    None \<Rightarrow> data
                  | Some account_match \<Rightarrow>
                      dict_set ''account_number'' (PStr (group account_match 1)) data);
          data = (case re_search False date_pattern message of
                    None \<Rightarrow> data
                  | Some date_match \<Rightarrow> store_date (group date_match 1) data);
          data = (case re_search True balance_pattern message of
                    None \<Rightarrow> data
                  | Some balance_match \<Rightarrow>
                      store_number ''available_balance'' (group balance_match 1) data);
          data = (case re_search False bank_pattern message of
                    None \<Rightarrow> data
                  | Some bank_match \<Rightarrow>
                      dict_set ''bank_name'' (PStr (strip (group bank_match 1) @ '' Bank'')) data)
      in
        if message_type = ''SALARY_CREDIT'' then
          (case re_search False employer_pattern message of
             Some employer_match \<Rightarrow>
               dict_set ''employer'' (PStr (strip (group employer_match 1))) data
           | None \<Rightarrow> dict_set ''employer'' (PStr ''General Transaction'') data)
        else if message_type = ''EMI_PAYMENT'' then
          (let data = (case re_search False loan_ref_pattern message of
                         None \<Rightarrow> data
                       | Some loan_ref_match \<Rightarrow>
                           dict_set ''loan_reference'' (PStr (group loan_ref_match 1)) data)
           in case re_search True loan_type_pattern message of
                Some loan_type_match \<Rightarrow>
                  dict_set ''loan_type'' (PStr (group loan_type_match 1)) data
              | None \<Rightarrow> dict_set ''loan_type'' (PStr ''Personal Loan'') data)
        else if message_type = ''CREDIT_CARD_TRANSACTION'' then
          (let data = (case re_search True merchant_pattern message of
                         None \<Rightarrow> data
                       | Some merchant_match \<Rightarrow>
                           dict_set ''merchant'' (PStr (strip (group merchant_match 1))) data);
               data = (case re_search False auth_code_pattern message of
                         None \<Rightarrow> data
                       | Some auth_code_match \<Rightarrow>
                           dict_set ''authorization_code'' (PStr (group auth_code_match 1)) data)
           in case re_search True outstanding_pattern message of
                None \<Rightarrow> data
              | Some outstanding_match \<Rightarrow>
                  store_number ''total_outstanding'' (group outstanding_match 1) data)
        else if message_type = ''SIP_INVESTMENT'' then
          dict_update data (extract_sip_data message)
        else if message_type = ''INSURANCE_PAYMENT'' then
          (let data = (case re_search True policy_pattern message of
                         None \<Rightarrow> data
                       | Some policy_match \<Rightarrow>
                           dict_set ''policy_number'' (PStr (group policy_match 1)) data);
               data = company_loop insurance_companies message data
           in dict_set ''insurance_type'' (PStr ''Life Insurance'') data)
        else data)"

section \<open>Sanitizer\<close>

text \<open>
  \<open>sanitize_llm_data\<close> of \<open>main_with_api.py\<close>.  The loop assigns \<open>data[key]\<close> for
  the keys of \<open>data\<close> itself, so it rewrites the value of each item where it stands.
  A \<open>bool\<close> is an instance of \<open>int\<close> and is kept as it is.
\<close>

definition identifier_fields :: "string list" where
  "identifier_fields = [''account_number'', ''card_number'', ''folio_number'', ''policy_number'']"

definition sanitize_value :: "(pyval \<Rightarrow> string) \<Rightarrow> string \<Rightarrow> pyval \<Rightarrow> pyval" where
  "sanitize_value repr key value =
     (if value = PNone then value
      else if key \<in> set identifier_fields then PStr (strip (py_str repr value))
      else
        (case value of
           PStr s \<Rightarrow>
             (let cleaned = strip s in
              if isdigit (remove1 (CHR ''.'') cleaned)
              then (if CHR ''.'' \<in> set cleaned
                    then (case py_float cleaned of Some f \<Rightarrow> PFloat f | None \<Rightarrow> PStr cleaned)
                    else (case py_int cleaned of Some i \<Rightarrow> PInt i | None \<Rightarrow> PStr cleaned))
              else PStr cleaned)
         | PInt i \<Rightarrow> value
         | PBool b \<Rightarrow> value
         | PFloat f \<Rightarrow> value
         | _ \<Rightarrow> PStr (strip (py_str repr value))))"

definition sanitize_llm_data :: "(pyval \<Rightarrow> string) \<Rightarrow> pydict \<Rightarrow> pydict" where
  "sanitize_llm_data repr data = map (\<lambda>item. (fst item, sanitize_value repr (fst item) (snd item))) data"

section \<open>Remote-analysis adapter and orchestration of \<open>main_with_api.py\<close>\<close>





record llm_result =
  llm_message_type :: pyval
  llm_extracted_data :: pydict
  llm_important_points :: pyval

text \<open>\<open>d[k]\<close> for a key that is present.\<close>

definition dict_get :: "pydict \<Rightarrow> string \<Rightarrow> pyval" where
  "dict_get d k = (case map_of d k of Some v \<Rightarrow> v | None \<Rightarrow> PNone)"


datatype py_error = ValueError string | HTTPException nat string | OtherError string

record message_response =
  res_message_type :: pyval
  res_important_points :: pyval
  res_data :: pydict


section \<open>The earlier variant in \<open>routes.py\<close>\<close>

text \<open>\<open>classify_message_type\<close> of \<open>routes.py\<close>.\<close>

definition routes_classify_message_type :: "string \<Rightarrow> string" where
  "routes_classify_message_type message0 =
     (let message = lower message0 in
      if (contains ''salary'' message \<or> contains ''deposited'' message \<or> contains ''credited'' message)
         \<and> list_ex (\<lambda>bank. contains bank (lower message)) [''hdfc'', ''sbi'', ''icici'', ''axis'']
      then ''SALARY_CREDIT''
      else if (contains ''loan'' message \<or> contains ''emi'' message)
            \<and> (contains ''debited'' message \<or> contains ''deducted'' message)
      then ''EMI_PAYMENT''
      else if contains ''credit card'' message \<or> contains ''creditcard'' message
            \<or> contains ''card member'' message
      then ''CREDIT_CARD_TRANSACTION''
      else if contains ''sip'' message
            \<and> (contains ''processed'' message \<or> contains ''deducted'' message
               \<or> contains ''under folio'' message \<or> contains ''has been processed'' message)
      then ''SIP_INVESTMENT''
      else if contains ''credited'' message \<or> contains ''deposited'' message
      then ''CREDIT_TRANSACTION''
      else if contains ''debited'' message \<or> contains ''deducted'' message
      then ''DEBIT_TRANSACTION''
      else ''OTHER_FINANCIAL'')"

text \<open>
  \<open>sanitize_llm_data\<close> of \<open>routes.py\<close>.  It builds a new dictionary, converts the string
  values of four numeric fields and drops such a field when the conversion fails; every
  other value is copied.  Here \<open>float\<close> meets any text the model produced, so it is the
  parameter \<open>to_float\<close> (\<open>None\<close> for its \<open>ValueError\<close>).
\<close>

definition numeric_fields :: "string list" where
  "numeric_fields = [''amount'', ''available_balance'', ''total_outstanding'', ''nav_value'']"

fun routes_sanitize_items :: "(string \<Rightarrow> rat option) \<Rightarrow> pydict \<Rightarrow> pydict \<Rightarrow> pydict" where
  "routes_sanitize_items to_float [] sanitized = sanitized"
| "routes_sanitize_items to_float (item # items) sanitized =
     (case snd item of
        PStr value \<Rightarrow>
          if fst item \<in> set numeric_fields
          then (case clean_numeric_string value of
                  None \<Rightarrow> routes_sanitize_items to_float items sanitized
                | Some cleaned \<Rightarrow>
                    (case to_float cleaned of
                       None \<Rightarrow> routes_sanitize_items to_float items sanitized
                     | Some f \<Rightarrow>
                         routes_sanitize_items to_float items
                           (dict_set (fst item) (PFloat f) sanitized)))
          else routes_sanitize_items to_float items (dict_set (fst item) (snd item) sanitized)
      | _ \<Rightarrow> routes_sanitize_items to_float items (dict_set (fst item) (snd item) sanitized))"

definition routes_sanitize_llm_data :: "(string \<Rightarrow> rat option) \<Rightarrow> pyval \<Rightarrow> pydict" where
  "routes_sanitize_llm_data to_float data =
     (case data of
        PDict items \<Rightarrow> if items = [] then [] else routes_sanitize_items to_float items []
      | _ \<Rightarrow> [])"

text \<open>\<open>s.split(sep)\<close> for a one-character separator, the parts of \<open>s.split(sep)\<close> for a
  longer one (\<open>split(sep)[0]\<close> is the text before the first \<open>sep\<close>, and, when \<open>sep\<close>
  occurs, \<open>split(sep)[1]\<close> the text between the first and the second), and the
  assignment \<open>day, month, year = parts\<close>, which raises \<open>ValueError\<close> unless there are
  three parts.\<close>

fun split_char :: "char \<Rightarrow> string \<Rightarrow> string list" where
  "split_char sep [] = [[]]"
| "split_char sep (c # cs) =
     (if c = sep then [] # split_char sep cs
      else (case split_char sep cs of [] \<Rightarrow> [[c]] | part # parts \<Rightarrow> (c # part) # parts))"

fun str_before :: "string \<Rightarrow> string \<Rightarrow> string" where
  "str_before sep [] = []"
| "str_before sep (c # cs) = (if startswith (c # cs) sep then [] else c # str_before sep cs)"

fun str_after :: "string \<Rightarrow> string \<Rightarrow> string" where
  "str_after sep [] = []"
| "str_after sep (c # cs) =
     (if startswith (c # cs) sep then drop (length sep) (c # cs) else str_after sep cs)"

definition unpack3 :: "string list \<Rightarrow> py_error + (string \<times> string \<times> string)" where
  "unpack3 parts =
     (case parts of
        [] \<Rightarrow> Inl (ValueError ''not enough values to unpack (expected 3, got 0)'')
      | [a] \<Rightarrow> Inl (ValueError ''not enough values to unpack (expected 3, got 1)'')
      | [a, b] \<Rightarrow> Inl (ValueError ''not enough values to unpack (expected 3, got 2)'')
      | [a, b, c] \<Rightarrow> Inr (a, b, c)
      | _ \<Rightarrow> Inl (ValueError ''too many values to unpack (expected 3)''))"

text \<open>The patterns of \<open>routes.py\<close> that differ from those above:
  \<open>(?:A/c|Ac\sNo\.|card ending|account)\s*([A-Z0-9]+\d{4})\<close>,
  \<open>(\d{2}[-/]\d{2}[-/]\d{2,4})\<close>, \<open>Authorization code:- (\w+)\<close> and, for a SIP,
  \<open>(\d{2}[/-]\d{2}[/-]\d{4})\<close>.\<close>

definition routes_account_pattern :: regex where
  "routes_account_pattern =
     seqs [Alt (lit ''A/c'') (Alt (seqs [lit ''Ac'', cls [CSpace], lit ''No.''])
          (Alt (lit ''card ending'') (lit ''account''))),
           many [CSpace], Grp 1 (Seq (many1 upper_digits) (rep 4 4 [CDigit]))]"

definition routes_date_pattern :: regex where
  "routes_date_pattern =
     Grp 1 (seqs [rep 2 2 [CDigit], cls date_sep2, rep 2 2 [CDigit], cls date_sep2,
                  rep 2 4 [CDigit]])"

definition routes_auth_code_pattern :: regex where
  "routes_auth_code_pattern = seqs [lit ''Authorization code:- '', Grp 1 (many1 [CWord])]"

definition routes_sip_date_pattern :: regex where
  "routes_sip_date_pattern =
     Grp 1 (seqs [rep 2 2 [CDigit], cls [CChar (CHR ''/''), CChar (CHR ''-'')], rep 2 2 [CDigit],
                  cls [CChar (CHR ''/''), CChar (CHR ''-'')], rep 4 4 [CDigit]])"

text \<open>The loop over bank names: the first one the message contains, ignoring case.\<close>

fun bank_loop :: "string list \<Rightarrow> string \<Rightarrow> pydict \<Rightarrow> pydict" where
  "bank_loop [] message data = data"
| "bank_loop (bank # banks) message data =
     (if contains (lower bank) (lower message) then dict_set ''bank_name'' (PStr bank) data
      else bank_loop banks message data)"

text \<open>\<open>extract_sip_data\<close> of \<open>routes.py\<close>.  \<open>Inl\<close> is an exception that leaves the
  function.\<close>

definition routes_extract_sip_data :: "string \<Rightarrow> py_error + pydict" where
  "routes_extract_sip_data message =
     (let data = [];
          data = (case re_search False sip_amount_pattern message of
                    None \<Rightarrow> data
                  | Some amount_match \<Rightarrow> store_number ''amount'' (group amount_match 1) data);
          dated = (case re_search False routes_sip_date_pattern message of
                     None \<Rightarrow> Inr data
                   | Some date_match \<Rightarrow>
                       (let date_str = group date_match 1 in
                        case unpack3 (if CHR ''/'' \<in> set date_str
                                      then split_char (CHR ''/'') date_str
                                      else split_char (CHR ''-'') date_str) of
                          Inl e \<Rightarrow> Inl e
                        | Inr (day, month, year) \<Rightarrow>
                            Inr (dict_set ''transaction_date''
                                   (PStr (year @ ''-'' @ month @ ''-'' @ day)) data)))
      in case dated of
           Inl e \<Rightarrow> Inl e
         | Inr data \<Rightarrow>
             (let data = (case re_search False folio_pattern message of
                            None \<Rightarrow> data
                          | Some folio_match \<Rightarrow>
                              dict_set ''folio_number'' (PStr (group folio_match 1)) data);
                  data = (case re_search False fund_pattern message of
                            None \<Rightarrow> data
                          | Some fund_match \<Rightarrow>
                              dict_set ''fund_name'' (PStr (strip (group fund_match 1))) data);
                  data = (case re_search False nav_pattern message of
                            None \<Rightarrow> data
                          | Some nav_match \<Rightarrow> store_number ''nav_value'' (group nav_match 1) data)
              in Inr data))"

text \<open>\<open>extract_financial_data\<close> of \<open>routes.py\<close>.\<close>

definition routes_extract_financial_data :: "string \<Rightarrow> string \<Rightarrow> py_error + pydict" where
  "routes_extract_financial_data message_type message =
     (let data = [];
          data = (case re_search False amount_pattern message of
                    None \<Rightarrow> data
                  | Some amount_match \<Rightarrow> store_number ''amount'' (group amount_match 1) data);
          data = (case re_search True routes_account_pattern message of
                    None \<Rightarrow> data
                  | Some account_match \<Rightarrow>
                      dict_set ''account_number'' (PStr (group account_match 1)) data);
          dated = (case re_search False routes_date_pattern message of
                     None \<Rightarrow> Inr data
                   | Some date_match \<Rightarrow>
                       (let date_str = group date_match 1 in
                        case unpack3 (split_char (CHR ''-'')
                                        (map (\<lambda>c. if c = CHR ''/'' then CHR ''-'' else c) date_str)) of
                          Inl e \<Rightarrow> Inl e
                        | Inr (day, month, year0) \<Rightarrow>
                            (let year = (if length year0 = 2 then ''20'' @ year0 else year0)
                             in Inr (dict_set ''transaction_date''
                                       (PStr (year @ ''-'' @ month @ ''-'' @ day)) data))))
      in case dated of
           Inl e \<Rightarrow> Inl e
         | Inr data \<Rightarrow>
             (let data = (case re_search True balance_pattern message of
                            None \<Rightarrow> data
                          | Some balance_match \<Rightarrow>
                              store_number ''available_balance'' (group balance_match 1) data)
              in
                if message_type = ''SALARY_CREDIT'' then
                  (let data = (case re_search False employer_pattern message of
                                 None \<Rightarrow> data
                               | Some employer_match \<Rightarrow>
                                   dict_set ''employer'' (PStr (strip (group employer_match 1))) data)
                   in Inr (bank_loop [''HDFC Bank'', ''SBI'', ''ICICI Bank'', ''Axis Bank''] message data))
                else if message_type = ''EMI_PAYMENT'' then
                  (let data = (case re_search False loan_ref_pattern message of
                                 None \<Rightarrow> data
                               | Some loan_ref_match \<Rightarrow>
                                   dict_set ''loan_reference'' (PStr (group loan_ref_match 1)) data);
                       data = (case re_search True loan_type_pattern message of
                                 Some loan_type_match \<Rightarrow>
                                   dict_set ''loan_type'' (PStr (group loan_type_match 1)) data
                               | None \<Rightarrow> dict_set ''loan_type'' (PStr ''Personal Loan'') data)
                   in Inr (bank_loop [''HDFC Bank'', ''SBI'', ''ICICI Bank'', ''Axis Bank'', ''NNSB'']
                             message data))
                else if message_type = ''CREDIT_CARD_TRANSACTION'' then
                  (let data = (case re_search True merchant_pattern message of
                                 None \<Rightarrow> data
                               | Some merchant_match \<Rightarrow>
                                   dict_set ''merchant'' (PStr (strip (group merchant_match 1))) data);
                       data = (case re_search False routes_auth_code_pattern message of
                                 None \<Rightarrow> data
                               | Some auth_code_match \<Rightarrow>
                                   dict_set ''authorization_code''
                                     (PStr (group auth_code_match 1)) data);
                       data = (case re_search True outstanding_pattern message of
                                 None \<Rightarrow> data
                               | Some outstanding_match \<Rightarrow>
                                   store_number ''total_outstanding''
                                     (group outstanding_match 1) data)
                   in Inr (bank_loop [''HDFC Bank'', ''SBI'', ''ICICI Bank'', ''Axis Bank''] message data))
                else if message_type = ''SIP_INVESTMENT'' then
                  (case routes_extract_sip_data message of
                     Inl e \<Rightarrow> Inl e
                   | Inr sip_data \<Rightarrow> Inr (dict_update data sip_data))
                else Inr data))"

text \<open>
  \<open>analyze_with_llm\<close> of \<open>routes.py\<close>: it takes the text out of a markdown fence, and its
  sanitizer accepts any value for \<open>extracted_data\<close>.  As above, \<open>None\<close> is the \<open>None\<close> it
  returns from its \<open>except\<close> clauses ("Return None to trigger fallback").

  Its first statement builds the prompt, an f-string that shows the expected response
  with single braces.  Python reads \<^verbatim>\<open>{ "message_type": "SPECIFIC_TYPE", ... }\<close> as a
  replacement field, the text after the colon as its format specification, and
  formatting a string with that specification raises \<open>ValueError\<close>, whatever the message
  (the prompt of \<open>main_with_api.py\<close> doubles these braces).  \<open>routes_prompt\<close> is the prompt,
  or \<open>None\<close> for that \<open>ValueError\<close>; the statements that follow it in the source are
  modelled as they are written.
\<close>

definition routes_prompt :: "string \<Rightarrow> string option" where
  "routes_prompt message = None"

definition fence :: string where
  "fence = [CHR 0x60, CHR 0x60, CHR 0x60]"

definition routes_clean_text :: "string \<Rightarrow> string" where
  "routes_clean_text response_text =
     (if contains (fence @ ''json'') response_text
      then strip (str_before fence
                    (str_before (fence @ ''json'') (str_after (fence @ ''json'') response_text)))
      else if contains fence response_text
      then strip (str_before fence (str_before fence (str_after fence response_text)))
      else response_text)"

definition routes_analyze_with_llm ::
  "(string \<Rightarrow> pyval option) \<Rightarrow> (string \<Rightarrow> rat option) \<Rightarrow> string option \<Rightarrow> string
   \<Rightarrow> llm_result option" where
  "routes_analyze_with_llm json_loads to_float response message =
     (case routes_prompt message of
        None \<Rightarrow> None
      | Some prompt \<Rightarrow>
     (case response of
        None \<Rightarrow> None
      | Some response_text0 \<Rightarrow>
          (let response_text = routes_clean_text response_text0 in
           case json_loads response_text of
             None \<Rightarrow> None
           | Some (PDict result) \<Rightarrow>
               if \<not> has_key ''message_type'' result \<or> \<not> has_key ''extracted_data'' result
                  \<or> \<not> has_key ''important_points'' result
               then None
               else Some \<lparr>llm_message_type = dict_get result ''message_type'',
                          llm_extracted_data =
                            routes_sanitize_llm_data to_float (dict_get result ''extracted_data''),
                          llm_important_points = dict_get result ''important_points''\<rparr>
           | Some _ \<Rightarrow> None)))"

text \<open>
  The highlights of the fallback branch of \<open>analyze_message\<close>.  The text of a float,
  \<open>f"{x:,.2f}"\<close> and \<open>f"{x}"\<close>, is left open: the parameters \<open>money\<close> and \<open>repr\<close>.
\<close>

definition money_text :: "(rat \<Rightarrow> string) \<Rightarrow> pyval \<Rightarrow> string" where
  "money_text money v = (case v of PFloat f \<Rightarrow> money f | _ \<Rightarrow> [])"

definition fallback_points ::
  "(rat \<Rightarrow> string) \<Rightarrow> (pyval \<Rightarrow> string) \<Rightarrow> string \<Rightarrow> pydict \<Rightarrow> string list" where
  "fallback_points money repr message_type extracted_data =
     (let important_points = [];
          important_points =
            (if has_key ''amount'' extracted_data
             then important_points @ [''Transaction amount: '' @ rupee
                                        @ money_text money (dict_get extracted_data ''amount'')]
             else important_points);
          important_points =
            (if has_key ''transaction_date'' extracted_data
             then important_points @ [''Date: '' @ py_str repr (dict_get extracted_data ''transaction_date'')]
             else important_points);
          important_points =
            (if has_key ''bank_name'' extracted_data
             then important_points @ [''Bank: '' @ py_str repr (dict_get extracted_data ''bank_name'')]
             else important_points);
          important_points =
            (if has_key ''available_balance'' extracted_data
             then important_points @ [''Available balance: '' @ rupee
                                        @ money_text money (dict_get extracted_data ''available_balance'')]
             else important_points)
      in
        if message_type = ''SALARY_CREDIT'' \<and> has_key ''employer'' extracted_data
        then important_points @ [''Salary from: '' @ py_str repr (dict_get extracted_data ''employer'')]
        else if message_type = ''CREDIT_CARD_TRANSACTION'' \<and> has_key ''merchant'' extracted_data
        then important_points @ [''Purchase at: '' @ py_str repr (dict_get extracted_data ''merchant'')]
        else if message_type = ''SIP_INVESTMENT'' \<and> has_key ''fund_name'' extracted_data
        then (let important_points =
                    important_points @ [''Fund: '' @ py_str repr (dict_get extracted_data ''fund_name'')]
              in if has_key ''nav_value'' extracted_data
                 then important_points @ [''NAV: '' @ py_str repr (dict_get extracted_data ''nav_value'')]
                 else important_points)
        else important_points)"

text \<open>The fallback branch of \<open>analyze_message\<close>: the classifier, then the extractor,
  then the highlights.  Storing the result is wrapped in \<open>try\<close> and changes nothing.\<close>

definition routes_fallback ::
  "(rat \<Rightarrow> string) \<Rightarrow> (pyval \<Rightarrow> string) \<Rightarrow> string \<Rightarrow> py_error + message_response" where
  "routes_fallback money repr message =
     (let message_type = routes_classify_message_type message in
      case routes_extract_financial_data message_type message of
        Inl e \<Rightarrow> Inl e
      | Inr extracted_data \<Rightarrow>
          Inr \<lparr>res_message_type = PStr message_type,
               res_important_points =
                 PList (map PStr (fallback_points money repr message_type extracted_data)),
               res_data = extracted_data\<rparr>)"

text \<open>
  \<open>analyze_message\<close>, the handler of \<open>routes.py\<close>.  The branch that accepts the remote
  result is modelled as it is written, although the prompt never lets the handler reach
  it; what \<open>MessageResponse\<close> would do there with values of another type than it
  declares is not part of this model.
\<close>

definition analyze_message ::
  "(string \<Rightarrow> pyval option) \<Rightarrow> (string \<Rightarrow> rat option) \<Rightarrow> (rat \<Rightarrow> string) \<Rightarrow> (pyval \<Rightarrow> string)
   \<Rightarrow> string option \<Rightarrow> string \<Rightarrow> py_error + message_response" where
  "analyze_message json_loads to_float money repr response message =
     (if strip message = [] then Inl (HTTPException 400 ''Message cannot be empty'')
      else
        (case routes_analyze_with_llm json_loads to_float response message of
           None \<Rightarrow> routes_fallback money repr message
         | Some llm \<Rightarrow>
             if llm_extracted_data llm = [] then routes_fallback money repr message
             else
               (let message_type = llm_message_type llm;
                    extracted_data = llm_extracted_data llm;
                    important_points = llm_important_points llm
                in
                  if message_type = PStr ''SIP_INVESTMENT''
                     \<and> (\<not> has_key ''nav_value'' extracted_data
                        \<or> dict_get extracted_data ''nav_value'' = PNone)
                  then (case routes_extract_sip_data message of
                          Inl e \<Rightarrow> Inl e
                        | Inr sip_data \<Rightarrow>
                            Inr \<lparr>res_message_type = message_type,
                                 res_important_points = important_points,
                                 res_data =
                                   (if has_key ''nav_value'' sip_data
                                    then dict_set ''nav_value'' (dict_get sip_data ''nav_value'')
                                           extracted_data
                                    else extracted_data)\<rparr>)
                  else Inr \<lparr>res_message_type = message_type,
                            res_important_points = important_points,
                            res_data = extracted_data\<rparr>)))"

section \<open>The statements of the specification\<close>

text \<open>The closed taxonomy.\<close>

definition categories :: "string list" where
  "categories =
     [''SALARY_CREDIT'', ''EMI_PAYMENT'', ''CREDIT_CARD_TRANSACTION'', ''SIP_INVESTMENT'',
      ''CREDIT_TRANSACTION'', ''DEBIT_TRANSACTION'', ''INSURANCE_PAYMENT'', ''OTHER_FINANCIAL'']"

text \<open>None of the seven rules of the decision list fires on the lower-cased text.\<close>

definition no_rule_matches :: "string \<Rightarrow> bool" where
  "no_rule_matches t =
     (\<not> (contains ''salary'' t \<or> contains ''credited'' t \<or> contains ''deposited'' t)
      \<and> \<not> ((contains ''loan'' t \<or> contains ''emi'' t)
            \<and> (contains ''debited'' t \<or> contains ''deducted'' t \<or> contains ''due on'' t))
      \<and> \<not> (contains ''credit card'' t \<or> contains ''creditcard'' t \<or> contains ''card member'' t)
      \<and> \<not> (contains ''sip'' t
            \<and> (contains ''processed'' t \<or> contains ''deducted'' t \<or> contains ''under folio'' t
               \<or> contains ''has been processed'' t))
      \<and> \<not> (contains ''insurance'' t \<or> contains ''premium'' t \<or> contains ''policy'' t)
      \<and> \<not> (contains ''credited'' t \<or> contains ''deposited'' t)
      \<and> \<not> (contains ''debited'' t \<or> contains ''deducted'' t))"

text \<open>The condition the first rule of \<open>routes.py\<close> adds: the lower-cased text names
  one of four banks.\<close>

definition bank_named :: "string \<Rightarrow> bool" where
  "bank_named t = list_ex (\<lambda>bank. contains bank t) [''hdfc'', ''sbi'', ''icici'', ''axis'']"


text \<open>An already clean numeric string: digits with at most one decimal point, no
  grouping separator and no trailing point.\<close>

definition already_clean :: "string \<Rightarrow> bool" where
  "already_clean s =
     (s \<noteq> [] \<and> list_all (\<lambda>c. is_digit c \<or> c = CHR ''.'') s
      \<and> count_list s (CHR ''.'') \<le> 1 \<and> last s \<noteq> CHR ''.'')"

text \<open>The texts on which \<open>parse_date\<close> has nothing to return: none of the four
  patterns is found and none of the five templates parses.\<close>

definition unparseable :: "string \<Rightarrow> bool" where
  "unparseable s =
     (re_search False pattern1 s = None \<and> re_search False pattern2 s = None
      \<and> re_search False pattern3 s = None \<and> re_search False pattern4 s = None
      \<and> list_all (\<lambda>fmt. strptime s fmt = None) strptime_formats)"

text \<open>A trimmed string has no white space at either end.\<close>

definition trimmed :: "string \<Rightarrow> bool" where
  "trimmed s = (s = [] \<or> (\<not> is_space (hd s) \<and> \<not> is_space (last s)))"





definition no_text :: "pyval \<Rightarrow> string" where
  "no_text v = []"

definition no_money :: "rat \<Rightarrow> string" where
  "no_money x = []"

text \<open>The messages of the two end-to-end scenarios.\<close>

definition credit_message :: string where
  "credit_message =
     ''Your A/c XX1234 credited with Rs.5,000.00 on 05-MAY-24. Avl bal Rs.12,300.50''"

definition sip_message :: string where
  "sip_message =
     ''Your SIP of 11/04/2025 for Rs.2499.88 under Folio XXXXXXX0016 in Mirae Asset Midcap Fund-Regular has been processed for NAV of 30.441.''"


section \<open>Auxiliary lemmas\<close>

subsection \<open>Characters\<close>



lemma comma_not_digit: "\<not> is_digit (CHR '','')"
  by (simp add: is_digit_def ord_def)

lemma punct_not_space: "\<not> is_space (CHR '','')" "\<not> is_space (CHR ''.'')"
  by (simp_all add: is_space_def ord_def)

lemma to_lower_idem: "to_lower (to_lower c) = to_lower c"
  by (auto simp: to_lower_def is_upper_def ord_def)

lemma lower_idem: "lower (lower s) = lower s"
  by (simp add: lower_def to_lower_idem)


subsection \<open>Trimming\<close>

lemma trimmed_strip: "trimmed (strip s)"
proof -
  define a where "a = dropWhile is_space s"
  define b where "b = dropWhile is_space (rev a)"
  have st: "strip s = rev b" by (simp add: strip_def a_def b_def)
  show ?thesis
  proof (cases "b = []")
    case True
    then show ?thesis by (simp add: st trimmed_def)
  next
    case False
    have split: "takeWhile is_space (rev a) @ b = rev a"
      unfolding b_def by (rule takeWhile_dropWhile_id)
    have a_ne: "a \<noteq> []"
    proof
      assume "a = []"
      then have "b = []" by (simp add: b_def)
      with False show False by contradiction
    qed
    have "\<not> is_space (hd b)"
      using False unfolding b_def by (rule hd_dropWhile)
    then have l: "\<not> is_space (last (rev b))" using False by (simp add: last_rev)
    have "last (takeWhile is_space (rev a) @ b) = last b" using False by (rule last_appendR)
    then have "last b = last (rev a)" using split by simp
    then have "last b = hd a" using a_ne by (simp add: last_rev)
    moreover have "\<not> is_space (hd a)"
      using a_ne unfolding a_def by (rule hd_dropWhile)
    ultimately have h: "\<not> is_space (hd (rev b))" using False by (simp add: hd_rev)
    show ?thesis using h l by (simp add: st trimmed_def)
  qed
qed

subsection \<open>Numeric normalizer\<close>

lemma filter_comma_clean:
  "list_all (\<lambda>c. is_digit c \<or> c = CHR ''.'') s \<Longrightarrow> filter (\<lambda>c. c \<noteq> CHR '','') s = s"
  by (induction s) (auto simp: comma_not_digit)

lemma clean_numeric_string_space:
  assumes ne: "s \<noteq> []" and sp: "list_all is_space s"
  shows "clean_numeric_string s = Some s"
proof -
  from sp have f: "filter (\<lambda>c. c \<noteq> CHR '','') s = s"
    by (induction s) (auto simp: punct_not_space)
  from sp have d: "count_list s (CHR ''.'') = 0"
    by (induction s) (auto simp: punct_not_space)
  from sp ne have l: "last s \<noteq> CHR ''.''"
    by (induction s) (auto simp: punct_not_space)
  show ?thesis using ne f d l by (simp add: clean_numeric_string_def Let_def)
qed

subsection \<open>Sanitizer\<close>

lemma map_of_sanitize:
  "map_of (sanitize_llm_data repr d) k = map_option (sanitize_value repr k) (map_of d k)"
  by (induction d) (auto simp: sanitize_llm_data_def)

lemma map_of_dict_set:
  "map_of (dict_set k v d) k' = (if k' = k then Some v else map_of d k')"
  by (induction d) auto

lemma routes_sanitize_items_copy:
  assumes "k \<notin> set numeric_fields" and "distinct (map fst items)"
  shows "map_of (routes_sanitize_items to_float items sanitized) k
         = (case map_of items k of Some v \<Rightarrow> Some v | None \<Rightarrow> map_of sanitized k)"
  using assms
proof (induction items arbitrary: sanitized)
  case Nil
  then show ?case by simp
next
  case (Cons item items)
  have d: "distinct (map fst items)" and n: "fst item \<notin> fst ` set items"
    using Cons.prems(2) by auto
  note IH = Cons.IH[OF Cons.prems(1) d]
  show ?case
  proof (cases "fst item = k")
    case True
    then have "map_of items k = None" using n by (simp add: map_of_eq_None_iff)
    then show ?thesis
      using True Cons.prems(1) IH
      by (cases item; cases "snd item") (auto simp: map_of_dict_set)
  next
    case False
    then show ?thesis
      using IH
      by (cases item; cases "snd item")
         (auto simp: map_of_dict_set split: option.splits)
  qed
qed

lemma identifier_not_numeric: "k \<in> set identifier_fields \<Longrightarrow> k \<notin> set numeric_fields"
  by (auto simp: identifier_fields_def numeric_fields_def)

lemma routes_sanitize_identifier:
  assumes "k \<in> set identifier_fields" and "distinct (map fst d)" and "map_of d k = Some v"
  shows "map_of (routes_sanitize_llm_data to_float (PDict d)) k = Some v"
proof -
  have "d \<noteq> []" using assms(3) by auto
  then show ?thesis
    using routes_sanitize_items_copy[OF identifier_not_numeric[OF assms(1)] assms(2),
        of to_float "[]"] assms(3)
    by (simp add: routes_sanitize_llm_data_def)
qed

lemma keys_sanitize: "map fst (sanitize_llm_data repr d) = map fst d"
  by (simp add: sanitize_llm_data_def comp_def)

subsection \<open>Texts without a digit\<close>











lemma strptime_loop_Some:
  "\<not> list_all (\<lambda>fmt. strptime s fmt = None) fmts \<Longrightarrow> strptime_loop s fmts \<noteq> None"
  by (induction fmts) (auto split: option.splits)




lemma parse_date_None_unparseable:
  assumes "parse_date s = None"
  shows "unparseable s"
proof -
  have 1: "re_search False pattern1 s = None"
    using assms by (cases "re_search False pattern1 s") (simp_all add: parse_date_def Let_def)
  have 2: "re_search False pattern2 s = None"
    using assms 1 by (cases "re_search False pattern2 s") (simp_all add: parse_date_def Let_def)
  have 3: "re_search False pattern3 s = None"
    using assms 1 2 by (cases "re_search False pattern3 s") (simp_all add: parse_date_def Let_def)
  have 4: "re_search False pattern4 s = None"
    using assms 1 2 3 by (cases "re_search False pattern4 s") (simp_all add: parse_date_def Let_def)
  have "strptime_loop s strptime_formats = None"
    using assms 1 2 3 4 by (simp add: parse_date_def)
  then have "list_all (\<lambda>fmt. strptime s fmt = None) strptime_formats"
    using strptime_loop_Some[of s strptime_formats] by blast
  then show ?thesis using 1 2 3 4 by (simp add: unparseable_def)
qed

subsection \<open>Texts of two, two and four digits\<close>




subsection \<open>Classifier\<close>

lemma classify_other:
  assumes "no_rule_matches (lower message)"
  shows "classify_message_type message = ''OTHER_FINANCIAL''"
proof -
  let ?t = "lower message"
  from assms have r1: "\<not> (contains ''salary'' ?t \<or> contains ''credited'' ?t \<or> contains ''deposited'' ?t)"
    unfolding no_rule_matches_def by (elim conjE)
  from assms have r2: "\<not> ((contains ''loan'' ?t \<or> contains ''emi'' ?t)
            \<and> (contains ''debited'' ?t \<or> contains ''deducted'' ?t \<or> contains ''due on'' ?t))"
    unfolding no_rule_matches_def by (elim conjE)
  from assms have r3: "\<not> (contains ''credit card'' ?t \<or> contains ''creditcard'' ?t \<or> contains ''card member'' ?t)"
    unfolding no_rule_matches_def by (elim conjE)
  from assms have r4: "\<not> (contains ''sip'' ?t
            \<and> (contains ''processed'' ?t \<or> contains ''deducted'' ?t \<or> contains ''under folio'' ?t
               \<or> contains ''has been processed'' ?t))"
    unfolding no_rule_matches_def by (elim conjE)
  from assms have r5: "\<not> (contains ''insurance'' ?t \<or> contains ''premium'' ?t \<or> contains ''policy'' ?t)"
    unfolding no_rule_matches_def by (elim conjE)
  from assms have r6: "\<not> (contains ''credited'' ?t \<or> contains ''deposited'' ?t)"
    unfolding no_rule_matches_def by (elim conjE)
  from assms have r7: "\<not> (contains ''debited'' ?t \<or> contains ''deducted'' ?t)"
    unfolding no_rule_matches_def by (elim conjE)
  have l4: "list_ex (\<lambda>keyword. contains keyword ?t)
                 [''processed'', ''deducted'', ''under folio'', ''has been processed'']
           = (contains ''processed'' ?t \<or> contains ''deducted'' ?t \<or> contains ''under folio'' ?t
               \<or> contains ''has been processed'' ?t)"
    by simp
  show ?thesis
    unfolding classify_message_type_def Let_def l4
    using r1 r2 r3 r4 r5 r6 r7 by simp
qed

subsection \<open>Remote failure\<close>


lemma routes_analyze_with_llm_None:
  "routes_analyze_with_llm json_loads to_float response message = None"
  by (simp add: routes_analyze_with_llm_def routes_prompt_def)

lemma analyze_message_always_falls_back:
  "strip message \<noteq> [] \<Longrightarrow>
   analyze_message json_loads to_float money repr response message
   = routes_fallback money repr message"
  by (simp add: analyze_message_def routes_analyze_with_llm_None)

section \<open>Numeric normalizer: claims C8 and C9\<close>

text \<open>
  C8.  The numeric normalizer returns an already clean numeric string unchanged, so
  that applying it again changes nothing, and it maps \<open>1,234.56\<close> to \<open>1234.56\<close>,
  \<open>30.441.\<close> to \<open>30.441\<close> and \<open>1.2.3\<close> to \<open>1.23\<close>.
\<close>

theorem clean_numeric_string_clean:
  "(already_clean s \<longrightarrow>
      clean_numeric_string s = Some s
      \<and> Option.bind (clean_numeric_string s) clean_numeric_string = clean_numeric_string s)
   \<and> clean_numeric_string ''1,234.56'' = Some ''1234.56''
   \<and> clean_numeric_string ''30.441.'' = Some ''30.441''
   \<and> clean_numeric_string ''1.2.3'' = Some ''1.23''"
proof -
  have fixed: "already_clean s \<Longrightarrow> clean_numeric_string s = Some s"
    by (simp add: already_clean_def clean_numeric_string_def filter_comma_clean Let_def)
  then have fixpoint: "already_clean s \<Longrightarrow>
      clean_numeric_string s = Some s
      \<and> Option.bind (clean_numeric_string s) clean_numeric_string = clean_numeric_string s"
    by simp
  have a: "clean_numeric_string ''1,234.56'' = Some ''1234.56''" by code_simp
  have b: "clean_numeric_string ''30.441.'' = Some ''30.441''" by code_simp
  have c: "clean_numeric_string ''1.2.3'' = Some ''1.23''" by code_simp
  show ?thesis using fixpoint a b c by blast
qed

theorem clean_numeric_string_clean_witness:
  "already_clean ''1234.56'' \<and> clean_numeric_string ''1234.56'' = Some ''1234.56''"
proof -
  have h: "already_clean ''1234.56''" by code_simp
  show ?thesis using h clean_numeric_string_clean[of "''1234.56''"] by blast
qed

text \<open>
  C9, as the code has it.  The normalizer returns null for the empty string only: its
  guard is \<open>if not value_str\<close>, and a string of white space is not empty.  A string
  that is not empty and consists of white space is returned as it is.
\<close>

theorem clean_numeric_string_blank:
  "clean_numeric_string [] = None
   \<and> (s \<noteq> [] \<and> list_all is_space s \<longrightarrow> clean_numeric_string s = Some s)"
  using clean_numeric_string_space[of s] by (simp add: clean_numeric_string_def)

theorem clean_numeric_string_blank_witness:
  "''   '' \<noteq> [] \<and> list_all is_space ''   '' \<and> clean_numeric_string ''   '' = Some ''   ''"
proof -
  have h: "''   '' \<noteq> [] \<and> list_all is_space ''   ''" by code_simp
  show ?thesis using h clean_numeric_string_blank[of "''   ''"] by blast
qed

text \<open>The claim as the specification states it fails on a single space: the result is
  the space, not null.\<close>

theorem clean_numeric_string_space_counterexample:
  "list_all is_space '' '' \<and> clean_numeric_string '' '' \<noteq> None"
  by code_simp

section \<open>Date normalizer: claim C7\<close>




section \<open>Classifier: claims C3 and C5\<close>

text \<open>
  C3, as the code has it.  A message whose lower-cased text contains \<open>salary\<close> and
  \<open>debited\<close> and neither \<open>loan\<close> nor \<open>emi\<close> is classified \<open>SALARY_CREDIT\<close>, not
  \<open>DEBIT_TRANSACTION\<close>, by the classifier of \<open>main_with_api.py\<close>: the first rule of its
  decision list is tried before the seventh.  The first rule of the classifier of
  \<open>routes.py\<close> also asks for the name of a bank: that classifier returns \<open>SALARY_CREDIT\<close>
  for such a message exactly when the text names one of \<open>hdfc\<close>, \<open>sbi\<close>, \<open>icici\<close> and
  \<open>axis\<close>, and \<open>DEBIT_TRANSACTION\<close> exactly when it names none and none of the rules for
  a card, a SIP and a credit fires.
\<close>

theorem salary_before_debit:
  assumes "contains ''salary'' (lower message)" and "contains ''debited'' (lower message)"
    and "\<not> contains ''loan'' (lower message)" and "\<not> contains ''emi'' (lower message)"
  shows "classify_message_type message = ''SALARY_CREDIT''
         \<and> classify_message_type message \<noteq> ''DEBIT_TRANSACTION''
         \<and> (routes_classify_message_type message = ''SALARY_CREDIT'')
             = bank_named (lower message)
         \<and> (routes_classify_message_type message = ''DEBIT_TRANSACTION'')
             = (\<not> bank_named (lower message)
                \<and> \<not> contains ''credit card'' (lower message)
                \<and> \<not> contains ''creditcard'' (lower message)
                \<and> \<not> contains ''card member'' (lower message)
                \<and> \<not> (contains ''sip'' (lower message)
                       \<and> (contains ''processed'' (lower message)
                          \<or> contains ''deducted'' (lower message)
                          \<or> contains ''under folio'' (lower message)
                          \<or> contains ''has been processed'' (lower message)))
                \<and> \<not> contains ''credited'' (lower message)
                \<and> \<not> contains ''deposited'' (lower message))"
  using assms
  by (simp add: classify_message_type_def routes_classify_message_type_def bank_named_def
        lower_idem Let_def)

theorem salary_before_debit_witness:
  "contains ''salary'' (lower ''Salary of Rs.100 debited from HDFC'')
   \<and> contains ''debited'' (lower ''Salary of Rs.100 debited from HDFC'')
   \<and> \<not> contains ''loan'' (lower ''Salary of Rs.100 debited from HDFC'')
   \<and> \<not> contains ''emi'' (lower ''Salary of Rs.100 debited from HDFC'')
   \<and> bank_named (lower ''Salary of Rs.100 debited from HDFC'')
   \<and> classify_message_type ''Salary of Rs.100 debited from HDFC'' = ''SALARY_CREDIT''
   \<and> classify_message_type ''Salary of Rs.100 debited from HDFC'' \<noteq> ''DEBIT_TRANSACTION''
   \<and> routes_classify_message_type ''Salary of Rs.100 debited from HDFC'' = ''SALARY_CREDIT''"
proof -
  have h1: "contains ''salary'' (lower ''Salary of Rs.100 debited from HDFC'')" by code_simp
  have h2: "contains ''debited'' (lower ''Salary of Rs.100 debited from HDFC'')" by code_simp
  have h3: "\<not> contains ''loan'' (lower ''Salary of Rs.100 debited from HDFC'')" by code_simp
  have h4: "\<not> contains ''emi'' (lower ''Salary of Rs.100 debited from HDFC'')" by code_simp
  have h5: "bank_named (lower ''Salary of Rs.100 debited from HDFC'')" by code_simp
  show ?thesis using h1 h2 h3 h4 h5 salary_before_debit[OF h1 h2 h3 h4] by blast
qed

text \<open>
  The claim as the specification states it fails on the classifier of \<open>routes.py\<close>: a
  text with \<open>salary\<close> and \<open>debited\<close>, without \<open>loan\<close> and \<open>emi\<close>, that names no bank is
  classified \<open>DEBIT_TRANSACTION\<close>.
\<close>

theorem routes_salary_debit_counterexample:
  "contains ''salary'' (lower ''Salary of Rs.100 debited'')
   \<and> contains ''debited'' (lower ''Salary of Rs.100 debited'')
   \<and> \<not> contains ''loan'' (lower ''Salary of Rs.100 debited'')
   \<and> \<not> contains ''emi'' (lower ''Salary of Rs.100 debited'')
   \<and> routes_classify_message_type ''Salary of Rs.100 debited'' = ''DEBIT_TRANSACTION''
   \<and> routes_classify_message_type ''Salary of Rs.100 debited'' \<noteq> ''SALARY_CREDIT''"
  by code_simp

text \<open>
  C5.  For every text, the empty one included, the classifier returns one value, a
  member of the set of eight categories, and \<open>OTHER_FINANCIAL\<close> when no rule matches.
  The classifier of \<open>routes.py\<close> stays within the same set.
\<close>

theorem classify_in_categories:
  "classify_message_type message \<in> set categories
   \<and> routes_classify_message_type message \<in> set categories
   \<and> distinct categories \<and> length categories = 8
   \<and> (no_rule_matches (lower message) \<longrightarrow> classify_message_type message = ''OTHER_FINANCIAL'')"
proof -
  have a: "classify_message_type message \<in> set categories"
    by (simp add: classify_message_type_def categories_def Let_def)
  have b: "routes_classify_message_type message \<in> set categories"
    by (simp add: routes_classify_message_type_def categories_def Let_def)
  have c: "distinct categories \<and> length categories = 8"
    by (simp add: categories_def)
  show ?thesis using a b c classify_other[of message] by blast
qed

theorem classify_in_categories_witness:
  "no_rule_matches (lower ''Hello there'')
   \<and> classify_message_type ''Hello there'' = ''OTHER_FINANCIAL''
   \<and> classify_message_type ''Hello there'' \<in> set categories"
proof -
  have h: "no_rule_matches (lower ''Hello there'')" by code_simp
  show ?thesis using h classify_in_categories[of "''Hello there''"] by blast
qed

section \<open>Sanitizer: claims C4 and C10\<close>

text \<open>
  C4, as the code has it.  The sanitizer of \<open>main_with_api.py\<close> turns every value of
  \<open>account_number\<close>, \<open>card_number\<close>, \<open>folio_number\<close> and \<open>policy_number\<close> that is not null
  into the trimmed text of that value, whatever its shape (the text is taken to be
  ASCII); a null value stays null, as for every field.  The sanitizer of \<open>routes.py\<close>
  converts the text of four numeric fields and nothing else: it copies the value of an
  identifier field as it is, of whatever type.  In both, the value \<open>"123456"\<close> of
  \<open>account_number\<close> remains the string \<open>"123456"\<close>.
\<close>

theorem identifier_fields_to_string:
  "(k \<in> set identifier_fields \<and> map_of d k = Some v \<and> v \<noteq> PNone
      \<and> ascii_text (py_str repr v) \<longrightarrow>
      map_of (sanitize_llm_data repr d) k = Some (PStr (strip (py_str repr v)))
      \<and> trimmed (strip (py_str repr v)))
   \<and> (map_of d k = Some PNone \<longrightarrow> map_of (sanitize_llm_data repr d) k = Some PNone)
   \<and> (k \<in> set identifier_fields \<and> distinct (map fst d) \<and> map_of d k = Some v \<longrightarrow>
      map_of (routes_sanitize_llm_data to_float (PDict d)) k = Some v)
   \<and> sanitize_llm_data repr [(''account_number'', PStr ''123456'')]
       = [(''account_number'', PStr ''123456'')]
   \<and> routes_sanitize_llm_data to_float (PDict [(''account_number'', PStr ''123456'')])
       = [(''account_number'', PStr ''123456'')]"
proof -
  have ex: "strip ''123456'' = ''123456''" by code_simp
  have e: "sanitize_llm_data repr [(''account_number'', PStr ''123456'')]
       = [(''account_number'', PStr ''123456'')]"
    by (simp add: sanitize_llm_data_def sanitize_value_def identifier_fields_def py_str_def ex)
  have r: "routes_sanitize_llm_data to_float (PDict [(''account_number'', PStr ''123456'')])
       = [(''account_number'', PStr ''123456'')]"
    by (simp add: routes_sanitize_llm_data_def numeric_fields_def)
  have m: "map_of (sanitize_llm_data repr d) k = Some (PStr (strip (py_str repr v)))
      \<and> trimmed (strip (py_str repr v))"
    if "k \<in> set identifier_fields" "map_of d k = Some v" "v \<noteq> PNone"
    using that trimmed_strip[of "py_str repr v"]
    by (simp add: map_of_sanitize sanitize_value_def)
  have n: "map_of (sanitize_llm_data repr d) k = Some PNone" if "map_of d k = Some PNone"
    using that by (simp add: map_of_sanitize sanitize_value_def)
  show ?thesis
    using e r m n routes_sanitize_identifier[of k d v to_float] by blast
qed

theorem identifier_fields_to_string_witness:
  "''account_number'' \<in> set identifier_fields
   \<and> map_of [(''account_number'', PInt 123456)] ''account_number'' = Some (PInt 123456)
   \<and> PInt 123456 \<noteq> PNone
   \<and> ascii_text (py_str no_text (PInt 123456))
   \<and> distinct (map fst [(''account_number'', PInt 123456)])
   \<and> map_of (sanitize_llm_data no_text [(''account_number'', PInt 123456)]) ''account_number''
       = Some (PStr ''123456'')
   \<and> map_of (routes_sanitize_llm_data py_float (PDict [(''account_number'', PInt 123456)]))
         ''account_number''
       = Some (PInt 123456)"
proof -
  have h: "''account_number'' \<in> set identifier_fields
     \<and> map_of [(''account_number'', PInt 123456)] ''account_number'' = Some (PInt 123456)
     \<and> PInt 123456 \<noteq> PNone
     \<and> distinct (map fst [(''account_number'', PInt 123456)])"
    by (simp add: identifier_fields_def)
  have a: "ascii_text (py_str no_text (PInt 123456))"
    by (simp add: py_str_def show_int_def digit_char_def ascii_text_def ord_def)
  have t: "strip (py_str no_text (PInt 123456)) = ''123456''"
    by (simp add: py_str_def show_int_def strip_def is_space_def ord_def digit_char_def)
  show ?thesis
    using h a t identifier_fields_to_string[of "''account_number''"
        "[(''account_number'', PInt 123456)]" "PInt 123456" no_text py_float]
    by simp
qed

text \<open>Elsewhere the sanitizer of \<open>main_with_api.py\<close> turns the same text into a
  number: the identifier fields are the exception.\<close>

lemma numeric_text_elsewhere:
  "sanitize_llm_data repr [(''amount'', PStr ''123456'')] = [(''amount'', PInt 123456)]"
proof -
  have "strip ''123456'' = ''123456''" by code_simp
  moreover have "isdigit ''123456''" by code_simp
  moreover have "py_int ''123456'' = Some 123456" by code_simp
  ultimately show ?thesis
    by (simp add: sanitize_llm_data_def sanitize_value_def identifier_fields_def)
qed

text \<open>
  The claim as the specification states it fails on the sanitizer of \<open>routes.py\<close>: the
  integer 123456 given for \<open>account_number\<close> is returned as the integer, not as a string.
\<close>

theorem routes_identifier_counterexample:
  "''account_number'' \<in> set identifier_fields
   \<and> routes_sanitize_llm_data py_float (PDict [(''account_number'', PInt 123456)])
       = [(''account_number'', PInt 123456)]"
  by (simp add: routes_sanitize_llm_data_def identifier_fields_def)

text \<open>
  C10.  The sanitizer of \<open>main_with_api.py\<close> returns a dictionary with the keys of its
  input, in the same order: it rewrites values, adds no key and removes none, and a key
  mapped to null keeps null.
\<close>

theorem sanitize_keeps_keys:
  "map fst (sanitize_llm_data repr d) = map fst d
   \<and> fst ` set (sanitize_llm_data repr d) = fst ` set d
   \<and> (\<forall>k. map_of d k = Some PNone \<longrightarrow> map_of (sanitize_llm_data repr d) k = Some PNone)"
proof -
  have k: "map fst (sanitize_llm_data repr d) = map fst d" by (rule keys_sanitize)
  then have "set (map fst (sanitize_llm_data repr d)) = set (map fst d)" by simp
  then have s: "fst ` set (sanitize_llm_data repr d) = fst ` set d" by simp
  show ?thesis using k s by (simp add: map_of_sanitize sanitize_value_def)
qed

theorem sanitize_keeps_keys_witness:
  "map_of [(''transaction_date'', PNone), (''amount'', PStr '' 12.5 '')] ''transaction_date''
     = Some PNone
   \<and> map_of (sanitize_llm_data no_text
               [(''transaction_date'', PNone), (''amount'', PStr '' 12.5 '')]) ''transaction_date''
     = Some PNone
   \<and> map fst (sanitize_llm_data no_text
               [(''transaction_date'', PNone), (''amount'', PStr '' 12.5 '')])
     = [''transaction_date'', ''amount'']"
  using sanitize_keeps_keys[of no_text
      "[(''transaction_date'', PNone), (''amount'', PStr '' 12.5 '')]"]
  by simp


section \<open>End-to-end scenarios: claims C2 and C6\<close>

lemma credit_message_fields:
  "extract_financial_data ''SALARY_CREDIT'' credit_message
   = [(''amount'', PFloat 5000), (''account_number'', PStr ''XX1234''),
      (''transaction_date'', PStr ''2024-05-05''),
      (''available_balance'', PFloat (24601 / 2)),
      (''employer'', PStr ''General Transaction'')]"
  by code_simp

lemma sip_message_fields:
  "extract_financial_data ''SIP_INVESTMENT'' sip_message
   = [(''amount'', PFloat (62497 / 25)), (''transaction_date'', PStr ''2025-04-11''),
      (''folio_number'', PStr ''XXXXXXX0016''),
      (''fund_name'', PStr ''Mirae Asset Midcap Fund-''),
      (''nav_value'', PFloat (30441 / 1000))]"
  by code_simp

text \<open>
  C2, as the code has it.  On the text
  \<open>Your A/c XX1234 credited with Rs.5,000.00 on 05-MAY-24. Avl bal Rs.12,300.50\<close> the
  fallback pipeline of \<open>main_with_api.py\<close>, the classifier and then the extractor,
  yields the category \<open>SALARY_CREDIT\<close>, since the first rule fires on \<open>credited\<close>, with
  the amount 5000.00, the transaction date \<open>2024-05-05\<close> and the available balance
  12300.50.
\<close>

theorem credit_message_fallback:
  "classify_message_type credit_message = ''SALARY_CREDIT''
   \<and> map_of (extract_financial_data (classify_message_type credit_message) credit_message)
        ''amount'' = Some (PFloat 5000.00)
   \<and> map_of (extract_financial_data (classify_message_type credit_message) credit_message)
        ''transaction_date'' = Some (PStr ''2024-05-05'')
   \<and> map_of (extract_financial_data (classify_message_type credit_message) credit_message)
        ''available_balance'' = Some (PFloat 12300.50)"
proof -
  have c: "classify_message_type credit_message = ''SALARY_CREDIT''" by code_simp
  show ?thesis unfolding c credit_message_fields by simp
qed

text \<open>The claim as the specification states it fails on the category: the classifier
  does not return \<open>CREDIT_TRANSACTION\<close> for this text.\<close>

theorem credit_message_category_counterexample:
  "classify_message_type
     ''Your A/c XX1234 credited with Rs.5,000.00 on 05-MAY-24. Avl bal Rs.12,300.50''
   \<noteq> ''CREDIT_TRANSACTION''"
  by code_simp

text \<open>
  C6.  On the SIP message the fallback pipeline of \<open>main_with_api.py\<close> yields the
  category \<open>SIP_INVESTMENT\<close>, the folio number \<open>XXXXXXX0016\<close>, the NAV value 30.441 and
  the transaction date \<open>2025-04-11\<close>.
\<close>

theorem sip_message_fallback:
  "classify_message_type sip_message = ''SIP_INVESTMENT''
   \<and> map_of (extract_financial_data (classify_message_type sip_message) sip_message)
        ''folio_number'' = Some (PStr ''XXXXXXX0016'')
   \<and> map_of (extract_financial_data (classify_message_type sip_message) sip_message)
        ''nav_value'' = Some (PFloat 30.441)
   \<and> map_of (extract_financial_data (classify_message_type sip_message) sip_message)
        ''transaction_date'' = Some (PStr ''2025-04-11'')"
proof -
  have c: "classify_message_type sip_message = ''SIP_INVESTMENT''" by code_simp
  show ?thesis unfolding c sip_message_fields by simp
qed

section \<open>Failure of the remote path: claim C1\<close>

text \<open>The handler of \<open>routes.py\<close> on the first scenario: its classifier gives
  \<open>CREDIT_TRANSACTION\<close>, and its date pattern does not read \<open>05-MAY-24\<close>.\<close>

lemma credit_message_routes:
  "routes_classify_message_type credit_message = ''CREDIT_TRANSACTION''
   \<and> routes_extract_financial_data ''CREDIT_TRANSACTION'' credit_message
       = Inr [(''amount'', PFloat 5000), (''account_number'', PStr ''XX1234''),
              (''available_balance'', PFloat (24601 / 2))]"
  by code_simp

text \<open>The local path of \<open>routes.py\<close> can itself raise: its SIP extractor splits a date
  with mixed separators into two parts and unpacks three.\<close>

lemma routes_fallback_can_raise:
  "routes_fallback no_money no_text ''SIP processed 11/04-2025''
   = Inl (ValueError ''not enough values to unpack (expected 3, got 2)'')"
  by code_simp




end
